theory Spec2Isabelle
  imports Main
begin

section \<open>Namespace resolution: the matcher of IdentifierHandlerFactory\<close>

text \<open>
  The source is the third argument of \<^verbatim>\<open>Factory.createFactory\<close> in
  \<^verbatim>\<open>IdentifierHandlerFactory\<close>:
  \<^verbatim>\<open>
  (names: string[], uri: string) => {
    Urn.guard(nameof(IdentifierHandlerFactory), nameof(uri), uri);
    const urn = Urn.fromValidString(uri);
    const urnParts = urn.parts();
    for (let i = urnParts.length - 1; i >= 0; i--) {
      const wholeNamespace = urnParts.slice(i).join(":");
      if (names.includes(wholeNamespace)) { return wholeNamespace; }
    }
  }
  \<close>
  The specification calls it \<open>resolveNamespace\<close>. A thrown error is the left injection
  of a sum; falling off the end of the function (JavaScript's \<open>undefined\<close>, the
  specification's "absent") is \<open>None\<close>.
\<close>

datatype error =
    MalformedIdentifier  \<comment> \<open>the guard error thrown by \<^verbatim>\<open>Urn.guard\<close>\<close>
  | TypeError            \<comment> \<open>reading a member of \<^verbatim>\<open>null\<close> or \<^verbatim>\<open>undefined\<close>\<close>

text \<open>\<^verbatim>\<open>String.prototype.split\<close> with a one-character separator: the empty string
  splits into one empty piece, and \<open>n\<close> separators give \<open>n + 1\<close> pieces.\<close>

fun split_on :: "char \<Rightarrow> string \<Rightarrow> string list" where
  "split_on d [] = [[]]"
| "split_on d (c # cs) =
     (if c = d then [] # split_on d cs
      else (case split_on d cs of
              [] \<Rightarrow> [[c]]
            | p # ps \<Rightarrow> (c # p) # ps))"

text \<open>\<^verbatim>\<open>Array.prototype.join\<close> on an array of strings.\<close>

fun join :: "string \<Rightarrow> string list \<Rightarrow> string" where
  "join sep [] = []"
| "join sep [p] = p"
| "join sep (p # q # ps) = p @ sep @ join sep (q # ps)"

text \<open>
  The class \<^verbatim>\<open>Urn\<close> is imported from the core package; its body is not among the
  sources. The three definitions that follow take its place, each from the
  specification's words.
\<close>

text \<open>
  Modelled from the spec: \<^verbatim>\<open>Urn.fromValidString(uri).parts()\<close>, which is missing. The
  resolver is to "parse \<open>uri\<close> into an ordered list of segments", the segments being
  "colon-delimited".
\<close>

definition Urn_parts :: "string \<Rightarrow> string list" where
  "Urn_parts uri = split_on (CHR '':'') uri"

text \<open>
  Modelled from the spec: the grammar that \<^verbatim>\<open>Urn.guard\<close> checks, which is missing: a
  valid identifier is made of "delimiter-separated non-empty segments", so that "an empty
  or delimiter-only identifier string" is not one.
\<close>

definition Urn_valid :: "string \<Rightarrow> bool" where
  "Urn_valid uri = ([] \<notin> set (Urn_parts uri))"

text \<open>
  Modelled from the spec: \<^verbatim>\<open>Urn.guard(source, property, uri)\<close>, which is missing: "if
  it does not [parse], the call fails with a \<open>MalformedIdentifier\<close> error".
\<close>

definition Urn_guard :: "string \<Rightarrow> error + unit" where
  "Urn_guard uri = (if Urn_valid uri then Inr () else Inl MalformedIdentifier)"

text \<open>
  The \<^verbatim>\<open>for\<close> loop. The third argument is the number of iterations still to run, so
  \<open>Suc i\<close> is the iteration whose loop variable is \<open>i\<close>; the loop starts at
  \<open>urnParts.length\<close> (loop variable \<open>urnParts.length - 1\<close>) and ends after the
  iteration with loop variable \<open>0\<close>. \<^verbatim>\<open>urnParts.slice(i)\<close> is \<open>drop i urnParts\<close>.
\<close>

fun resolveNamespace_loop :: "string list \<Rightarrow> string list \<Rightarrow> nat \<Rightarrow> string option" where
  "resolveNamespace_loop names urnParts 0 = None"
| "resolveNamespace_loop names urnParts (Suc i) =
     (let wholeNamespace = join '':'' (drop i urnParts)
      in if wholeNamespace \<in> set names then Some wholeNamespace
         else resolveNamespace_loop names urnParts i)"

definition resolveNamespace :: "string list \<Rightarrow> string \<Rightarrow> error + string option" where
  "resolveNamespace names uri =
     (case Urn_guard uri of
        Inl e \<Rightarrow> Inl e
      | Inr _ \<Rightarrow>
          (let urnParts = Urn_parts uri
           in Inr (resolveNamespace_loop names urnParts (length urnParts))))"

section \<open>Values, validation failures and the registry\<close>

text \<open>
  A JavaScript value as the validators see it. Values are trees, as a JSON parser
  delivers them: two objects at different places of a value are never the same
  reference. Numbers are not computed with; an integer stands for one. An object is the
  list of its own members, the first binding of a name being the one read.
\<close>

datatype jsval =
    JUndefined
  | JNull
  | JBool bool
  | JNum int
  | JStr string
  | JArr "jsval list"
  | JObj "(string \<times> jsval) list"

text \<open>\<^verbatim>\<open>IValidationFailure\<close>, with the two members the source writes.\<close>

record failure =
  property :: string
  reason :: string

text \<open>
  A registered validator, \<^verbatim>\<open>validate(propertyName, value, failures, container)\<close>. The
  failures collection is written by \<^verbatim>\<open>push\<close> only, so a validator is the function
  from its other three arguments to its outcome (a thrown error or the returned boolean)
  and the failures it appends.
\<close>

type_synonym validator = "string \<Rightarrow> jsval \<Rightarrow> jsval \<Rightarrow> (error + bool) \<times> failure list"

text \<open>\<^verbatim>\<open>IDataTypeHandler\<close>: the validators read the member \<^verbatim>\<open>validate\<close> only; the
  schema and the default value are left out.\<close>

record handler =
  htype :: string
  validate :: "validator option"

text \<open>
  What the validators read from outside: the registry behind
  \<^verbatim>\<open>DataTypeHandlerFactory.get\<close> (a lookup that yields a handler or nothing), and the
  URL grammar behind \<^verbatim>\<open>Url.validate\<close>, which the specification leaves to the
  string-parsing primitives.
\<close>

record env =
  Url_syntax :: "string \<Rightarrow> bool"
  DataTypeHandlerFactory :: "string \<Rightarrow> handler option"

text \<open>
  The predicates of \<^verbatim>\<open>Is\<close> and the checks of \<^verbatim>\<open>Validation\<close> and \<^verbatim>\<open>Url\<close> are
  imported from the core package; their bodies are not among the sources. The definitions
  that follow take their place, each from the specification's words.
\<close>

text \<open>
  Modelled from the spec: \<^verbatim>\<open>Is.empty\<close>, which is missing. "Empty/absent input" is
  \<^verbatim>\<open>undefined\<close> or \<^verbatim>\<open>null\<close>.
\<close>

definition Is_empty :: "jsval \<Rightarrow> bool" where
  "Is_empty v = (v = JUndefined \<or> v = JNull)"

text \<open>
  Modelled from the spec: \<^verbatim>\<open>Is.array\<close>, which is missing. The input is required "to
  be an ordered sequence".
\<close>

definition Is_array :: "jsval \<Rightarrow> bool" where
  "Is_array v = (case v of JArr _ \<Rightarrow> True | _ \<Rightarrow> False)"

text \<open>
  Modelled from the spec: \<^verbatim>\<open>Is.object\<close>, which is missing. A property is a "record:
  object, containing" its members.
\<close>

definition Is_object :: "jsval \<Rightarrow> bool" where
  "Is_object v = (case v of JObj _ \<Rightarrow> True | _ \<Rightarrow> False)"

text \<open>
  Modelled from the spec: \<^verbatim>\<open>Is.stringValue\<close>, which is missing: a "non-empty
  string".
\<close>

definition Is_stringValue :: "jsval \<Rightarrow> bool" where
  "Is_stringValue v = (case v of JStr s \<Rightarrow> s \<noteq> [] | _ \<Rightarrow> False)"

text \<open>
  Reading a member: \<^verbatim>\<open>v.name\<close> throws a TypeError on \<^verbatim>\<open>undefined\<close> and
  \<^verbatim>\<open>null\<close>, yields the member of an object, and \<^verbatim>\<open>undefined\<close> where there is
  none. The source reads the names \<^verbatim>\<open>key\<close>, \<^verbatim>\<open>type\<close> and \<^verbatim>\<open>value\<close> only, which
  no array, string, number or boolean has.
\<close>

definition js_field :: "jsval \<Rightarrow> string \<Rightarrow> jsval" where
  "js_field v name =
     (case v of
        JObj members \<Rightarrow> (case map_of members name of Some x \<Rightarrow> x | None \<Rightarrow> JUndefined)
      | _ \<Rightarrow> JUndefined)"

definition js_get :: "jsval \<Rightarrow> string \<Rightarrow> error + jsval" where
  "js_get v name = (if Is_empty v then Inl TypeError else Inr (js_field v name))"

text \<open>\<^verbatim>\<open>Array.prototype.includes\<close> compares with SameValueZero: primitives by value,
  arrays and objects by reference, which no two places of a tree share.\<close>

fun sameValueZero :: "jsval \<Rightarrow> jsval \<Rightarrow> bool" where
  "sameValueZero (JArr _) _ = False"
| "sameValueZero (JObj _) _ = False"
| "sameValueZero a b = (a = b)"

definition Array_includes :: "jsval list \<Rightarrow> jsval \<Rightarrow> bool" where
  "Array_includes keys k = list_ex (\<lambda>x. sameValueZero x k) keys"

text \<open>The decimal numeral a template literal writes for an array index.\<close>

fun show_nat :: "nat \<Rightarrow> string" where
  "show_nat n =
     (if n < 10 then [''0123456789'' ! n]
      else show_nat (n div 10) @ [''0123456789'' ! (n mod 10)])"

declare show_nat.simps [simp del]

text \<open>
  Modelled from the spec: \<^verbatim>\<open>nameof(value.key, propertyName)\<close>, a compile-time
  transformation whose package is missing. A failure's property is a "dotted/bracketed
  path", as in \<^verbatim>\<open>propertyName[i].key\<close>: the member's name follows the parent's name
  after a dot.
\<close>

definition nameof :: "string \<Rightarrow> string \<Rightarrow> string" where
  "nameof member parentName = parentName @ ''.'' @ member"

text \<open>
  Each of the four checks is a "black-box predicate": it returns whether its rule holds of
  the value and, when it does not, "appends one Validation Failure with a reason code
  identifying which structural rule failed". The reason codes below stand for the
  package's own; nothing proved here depends on their spelling.
\<close>

text \<open>
  Modelled from the spec: \<^verbatim>\<open>Validation.object\<close>, which is missing: the value must be
  an "object".
\<close>

definition Validation_object :: "string \<Rightarrow> jsval \<Rightarrow> failure list \<Rightarrow> bool \<times> failure list" where
  "Validation_object name v failures =
     (if Is_object v then (True, failures)
      else (False, failures @ [\<lparr>property = name, reason = ''validation.beObject''\<rparr>]))"

text \<open>
  Modelled from the spec: \<^verbatim>\<open>Validation.stringValue\<close>, which is missing: the value
  must be a "non-empty string".
\<close>

definition Validation_stringValue :: "string \<Rightarrow> jsval \<Rightarrow> failure list \<Rightarrow> bool \<times> failure list" where
  "Validation_stringValue name v failures =
     (if Is_stringValue v then (True, failures)
      else (False, failures @ [\<lparr>property = name, reason = ''validation.beTextValue''\<rparr>]))"

text \<open>
  Modelled from the spec: \<^verbatim>\<open>Validation.notEmpty\<close>, which is missing: the value must
  be "non-empty", that is, not "empty/absent".
\<close>

definition Validation_notEmpty :: "string \<Rightarrow> jsval \<Rightarrow> failure list \<Rightarrow> bool \<times> failure list" where
  "Validation_notEmpty name v failures =
     (if \<not> Is_empty v then (True, failures)
      else (False, failures @ [\<lparr>property = name, reason = ''validation.beNotEmpty''\<rparr>]))"

text \<open>
  Modelled from the spec: \<^verbatim>\<open>Url.validate\<close>, which is missing: the value must be "a
  syntactically valid type identifier", a non-empty string that the URL grammar of the
  environment accepts.
\<close>

definition Url_validate :: "env \<Rightarrow> string \<Rightarrow> jsval \<Rightarrow> failure list \<Rightarrow> bool \<times> failure list" where
  "Url_validate env name v failures =
     (if (case v of JStr s \<Rightarrow> s \<noteq> [] \<and> Url_syntax env s | _ \<Rightarrow> False) then (True, failures)
      else (False, failures @ [\<lparr>property = name, reason = ''validation.beUrl''\<rparr>]))"

text \<open>
  Modelled from the spec: \<^verbatim>\<open>DataTypeHandlerFactory.get(value.type)\<close>, whose factory
  is missing: it "returns the Handler Entry for an exact-match identifier, or an
  absent/undefined result if not present". The source calls it only where
  \<^verbatim>\<open>Url.validate\<close> has accepted the type, which is then a string.
\<close>

definition DataTypeHandlerFactory_get :: "env \<Rightarrow> jsval \<Rightarrow> handler option" where
  "DataTypeHandlerFactory_get env name =
     (case name of JStr s \<Rightarrow> DataTypeHandlerFactory env s | _ \<Rightarrow> None)"

section \<open>The validators of FrameworkDataTypes\<close>

text \<open>
  \<^verbatim>\<open>validateIProperty(propertyName, value, failures, container)\<close>. The failures
  collection is passed in and returned; the first component is the thrown error or the
  returned boolean. Inside \<^verbatim>\<open>if (is)\<close> the value is an object, so reading its
  members does not throw. An error thrown by the registered validator leaves the function.
\<close>

definition validateIProperty ::
  "env \<Rightarrow> string \<Rightarrow> jsval \<Rightarrow> failure list \<Rightarrow> jsval \<Rightarrow> (error + bool) \<times> failure list" where
  "validateIProperty env propertyName v failures container =
     (let (is, f0) = Validation_object propertyName v failures
      in if is then
           (let (isKey, f1) =
                  Validation_stringValue (nameof ''key'' propertyName) (js_field v ''key'') f0;
                (isValidTypeUrl, f2) =
                  Url_validate env (nameof ''type'' propertyName) (js_field v ''type'') f1;
                (isValue, f3) =
                  Validation_notEmpty (nameof ''value'' propertyName) (js_field v ''value'') f2
            in if isValidTypeUrl then
                 (case DataTypeHandlerFactory_get env (js_field v ''type'') of
                    None \<Rightarrow> (Inr is, f3)
                  | Some dataTypeHandler \<Rightarrow>
                      (case validate dataTypeHandler of
                         None \<Rightarrow> (Inr is, f3)
                       | Some validateFn \<Rightarrow>
                           (case validateFn propertyName (js_field v ''value'') container of
                              (Inl e, appended) \<Rightarrow> (Inl e, f3 @ appended)
                            | (Inr _, appended) \<Rightarrow> (Inr is, f3 @ appended))))
               else (Inr is, f3))
         else (Inr is, f0))"

text \<open>
  The two template literals of \<^verbatim>\<open>validateIPropertyList\<close>: the element's name
  \<^verbatim>\<open>`${propertyName}[${i}]`\<close>, and the failure pushed for a key seen before,
  \<^verbatim>\<open>{ property: `${propertyName}[${i}].key`,
    reason: "validation.properties.keyAlreadyExists" }\<close>.
\<close>

definition elementName :: "string \<Rightarrow> nat \<Rightarrow> string" where
  "elementName propertyName i = propertyName @ ''['' @ show_nat i @ '']''"

definition keyAlreadyExists :: "string \<Rightarrow> nat \<Rightarrow> failure" where
  "keyAlreadyExists propertyName i =
     \<lparr>property = propertyName @ ''['' @ show_nat i @ ''].key'',
      reason = ''validation.properties.keyAlreadyExists''\<rparr>"

text \<open>
  The body of the \<^verbatim>\<open>for\<close> loop of \<^verbatim>\<open>validateIPropertyList\<close>, by recursion on the
  elements from index \<open>i\<close> on; \<open>keys\<close> and \<open>failures\<close> are the loop's two arrays.
  \<^verbatim>\<open>value[i].key\<close> is read before the element goes to \<^verbatim>\<open>validateIProperty\<close>.
\<close>

fun validateIPropertyList_loop ::
  "env \<Rightarrow> string \<Rightarrow> jsval \<Rightarrow> jsval list \<Rightarrow> nat \<Rightarrow> jsval list \<Rightarrow> failure list
     \<Rightarrow> (error + unit) \<times> failure list" where
  "validateIPropertyList_loop env propertyName container [] i keys failures = (Inr (), failures)"
| "validateIPropertyList_loop env propertyName container (x # rest) i keys failures =
     (case js_get x ''key'' of
        Inl e \<Rightarrow> (Inl e, failures)
      | Inr k \<Rightarrow>
          (let f1 = (if Array_includes keys k
                     then failures @ [keyAlreadyExists propertyName i]
                     else failures);
               keys1 = keys @ [k]
           in (case validateIProperty env (elementName propertyName i) x f1 container of
                 (Inl e, f2) \<Rightarrow> (Inl e, f2)
               | (Inr _, f2) \<Rightarrow>
                   validateIPropertyList_loop env propertyName container rest (Suc i) keys1 f2)))"

definition elements :: "jsval \<Rightarrow> jsval list" where
  "elements v = (case v of JArr xs \<Rightarrow> xs | _ \<Rightarrow> [])"

definition validateIPropertyList ::
  "env \<Rightarrow> string \<Rightarrow> jsval \<Rightarrow> failure list \<Rightarrow> jsval \<Rightarrow> (error + bool) \<times> failure list" where
  "validateIPropertyList env propertyName v failures container =
     (if Is_empty v then (Inr True, failures)
      else (let is = Is_array v
            in if is then
                 (case validateIPropertyList_loop env propertyName container (elements v) 0 [] failures of
                    (Inl e, f) \<Rightarrow> (Inl e, f)
                  | (Inr _, f) \<Rightarrow> (Inr is, f))
               else (Inr is, failures)))"

text \<open>
  The two handlers that \<^verbatim>\<open>registerTypes\<close> registers for the validators above. A
  handler's validator appends to the collection it is given; \<open>inner\<close> is the registry
  the validator reads when it runs.
\<close>

definition TYPE_PROPERTY :: string where
  "TYPE_PROPERTY = ''https://schema.gtsc.io/Property''"

definition TYPE_PROPERTY_LIST :: string where
  "TYPE_PROPERTY_LIST = ''https://schema.gtsc.io/PropertyList''"

definition propertyHandler :: "env \<Rightarrow> handler" where
  "propertyHandler inner =
     \<lparr>htype = TYPE_PROPERTY,
      validate = Some (\<lambda>propertyName v container.
        validateIProperty inner propertyName v [] container)\<rparr>"

definition propertyListHandler :: "env \<Rightarrow> handler" where
  "propertyListHandler inner =
     \<lparr>htype = TYPE_PROPERTY_LIST,
      validate = Some (\<lambda>propertyName v container.
        validateIPropertyList inner propertyName v [] container)\<rparr>"

section \<open>The failures of a run of validateIPropertyList, element by element\<close>

text \<open>
  Read off the loop body, for the statements below. The iteration for element \<open>i\<close> reads
  \<^verbatim>\<open>value[i].key\<close>, pushes the \<^verbatim>\<open>keyAlreadyExists\<close> failure when the key is among
  the keys of the elements before it, and calls \<^verbatim>\<open>validateIProperty\<close> on the
  element: \<open>duplicateKeyFailures\<close> is what the first step appends, \<open>elementFailures\<close>
  what the whole iteration appends (nothing when the read throws), and \<open>elementReturns\<close>
  says that the iteration ends without throwing. \<open>reachedElements\<close> are the indices
  whose iteration runs: all up to and including the first whose iteration throws.
\<close>

definition duplicateKeyFailures :: "string \<Rightarrow> jsval list \<Rightarrow> nat \<Rightarrow> failure list" where
  "duplicateKeyFailures propertyName xs i =
     (if Array_includes (map (\<lambda>x. js_field x ''key'') (take i xs)) (js_field (xs ! i) ''key'')
      then [keyAlreadyExists propertyName i] else [])"

definition elementFailures :: "env \<Rightarrow> string \<Rightarrow> jsval \<Rightarrow> jsval list \<Rightarrow> nat \<Rightarrow> failure list" where
  "elementFailures env propertyName container xs i =
     (if Is_empty (xs ! i) then []
      else duplicateKeyFailures propertyName xs i
           @ snd (validateIProperty env (elementName propertyName i) (xs ! i) [] container))"

definition elementReturns :: "env \<Rightarrow> string \<Rightarrow> jsval \<Rightarrow> jsval list \<Rightarrow> nat \<Rightarrow> bool" where
  "elementReturns env propertyName container xs i =
     (\<not> Is_empty (xs ! i) \<and>
      (case fst (validateIProperty env (elementName propertyName i) (xs ! i) [] container) of
         Inl e \<Rightarrow> False
       | Inr b \<Rightarrow> True))"

definition reachedElements :: "env \<Rightarrow> string \<Rightarrow> jsval \<Rightarrow> jsval list \<Rightarrow> nat list" where
  "reachedElements env propertyName container xs =
     take (Suc (length (takeWhile (elementReturns env propertyName container xs) [0..<length xs])))
       [0..<length xs]"

section \<open>Example registries and values\<close>

text \<open>
  Concrete inputs on which the validators are run below: a URL grammar, a registry with no
  handler, a validator that always reports one failure, a registry holding that
  validator, a handler with a schema only, and the two framework handlers, and a
  property record with the three members.
\<close>

definition exampleUrl :: "string \<Rightarrow> bool" where
  "exampleUrl s = (take 8 s = ''https://'')"

definition emptyRegistry :: env where
  "emptyRegistry = \<lparr>Url_syntax = exampleUrl, DataTypeHandlerFactory = (\<lambda>t. None)\<rparr>"

definition alwaysFails :: validator where
  "alwaysFails propertyName v container =
     (Inr False, [\<lparr>property = propertyName, reason = ''example.alwaysFails''\<rparr>])"

definition exampleRegistry :: env where
  "exampleRegistry =
     \<lparr>Url_syntax = exampleUrl,
      DataTypeHandlerFactory = (\<lambda>t.
        if t = ''https://example.org/AlwaysFails''
        then Some \<lparr>htype = t, validate = Some alwaysFails\<rparr>
        else if t = ''https://example.org/SchemaOnly''
        then Some \<lparr>htype = t, validate = None\<rparr>
        else if t = TYPE_PROPERTY then Some (propertyHandler emptyRegistry)
        else if t = TYPE_PROPERTY_LIST then Some (propertyListHandler emptyRegistry)
        else None)\<rparr>"

definition exampleProperty :: "string \<Rightarrow> string \<Rightarrow> jsval \<Rightarrow> jsval" where
  "exampleProperty k t x = JObj [(''key'', JStr k), (''type'', JStr t), (''value'', x)]"

section \<open>Properties of the namespace resolution\<close>

lemma split_on_delimiters_only: "set s \<subseteq> {d} \<Longrightarrow> [] \<in> set (split_on d s)"
  by (cases s) auto

lemma Urn_parts_abc: "Urn_parts ''a:b:c'' = [''a'', ''b'', ''c'']"
  by (simp add: Urn_parts_def)

lemma Urn_valid_abc: "Urn_valid ''a:b:c''"
  by (simp add: Urn_valid_def Urn_parts_abc)

text \<open>The loop finds nothing exactly when none of the suffixes it tries is a name.\<close>

lemma resolveNamespace_loop_None:
  "(resolveNamespace_loop names ps n = None) =
   (\<forall>j<n. join '':'' (drop j ps) \<notin> set names)"
  by (induction n) (auto simp: Let_def less_Suc_eq)

text \<open>The loop returns the suffix with the greatest start index among those that are
  names: the iterations with a greater loop variable run first and all miss.\<close>

lemma resolveNamespace_loop_first_hit:
  assumes "i < n"
    and "join '':'' (drop i ps) \<in> set names"
    and "\<forall>j. i < j \<and> j < n \<longrightarrow> join '':'' (drop j ps) \<notin> set names"
  shows "resolveNamespace_loop names ps n = Some (join '':'' (drop i ps))"
  using assms
proof (induction n)
  case 0
  then show ?case by simp
next
  case (Suc n)
  show ?case
  proof (cases "i = n")
    case True
    with Suc.prems show ?thesis by (simp add: Let_def)
  next
    case False
    with Suc.prems have "i < n" by simp
    moreover from Suc.prems False have "join '':'' (drop n ps) \<notin> set names" by simp
    ultimately show ?thesis using Suc by (simp add: Let_def)
  qed
qed

text \<open>
  C1, as the code has it. The loop variable runs from the last index down to \<open>0\<close> and the
  candidate is \<^verbatim>\<open>urnParts.slice(i)\<close>, so the suffixes are tried in ascending length:
  the last segment alone first, the whole identifier last. Of the suffixes that are
  registered names, the one returned is the shortest (the one starting at the greatest
  index \<open>i\<close>).
\<close>

theorem resolveNamespace_shortest_suffix:
  assumes "Urn_valid uri"
    and "i < length (Urn_parts uri)"
    and "join '':'' (drop i (Urn_parts uri)) \<in> set names"
    and "\<forall>j. i < j \<and> j < length (Urn_parts uri) \<longrightarrow>
             join '':'' (drop j (Urn_parts uri)) \<notin> set names"
  shows "resolveNamespace names uri = Inr (Some (join '':'' (drop i (Urn_parts uri))))"
  using assms
    resolveNamespace_loop_first_hit [of i "length (Urn_parts uri)" "Urn_parts uri" names]
  by (simp add: resolveNamespace_def Urn_guard_def Let_def)

text \<open>With all three suffixes of \<open>a:b:c\<close> registered the result is \<open>c\<close>; with the two
  longer ones registered it is \<open>b:c\<close>.\<close>

theorem resolveNamespace_shortest_suffix_witness:
  "resolveNamespace [''a:b:c'', ''b:c'', ''c''] ''a:b:c'' = Inr (Some ''c'')
   \<and> resolveNamespace [''a:b:c'', ''b:c''] ''a:b:c'' = Inr (Some ''b:c'')"
proof -
  have a: "\<forall>j. 2 < j \<and> j < length (Urn_parts ''a:b:c'') \<longrightarrow>
             join '':'' (drop j (Urn_parts ''a:b:c'')) \<notin> set [''a:b:c'', ''b:c'', ''c'']"
    by (simp add: Urn_parts_abc)
  have b: "\<forall>j. 1 < j \<and> j < length (Urn_parts ''a:b:c'') \<longrightarrow>
             join '':'' (drop j (Urn_parts ''a:b:c'')) \<notin> set [''a:b:c'', ''b:c'']"
  proof (intro allI impI)
    fix j :: nat
    assume "1 < j \<and> j < length (Urn_parts ''a:b:c'')"
    then have "j = 2" by (simp add: Urn_parts_abc)
    then show "join '':'' (drop j (Urn_parts ''a:b:c'')) \<notin> set [''a:b:c'', ''b:c'']"
      by (simp add: Urn_parts_abc)
  qed
  from resolveNamespace_shortest_suffix [OF Urn_valid_abc _ _ a]
    resolveNamespace_shortest_suffix [OF Urn_valid_abc _ _ b]
  show ?thesis by (simp add: Urn_parts_abc)
qed

text \<open>
  C1, as the specification states it, fails: with the names \<open>a:b\<close> and \<open>a\<close> registered,
  \<open>a:b:c\<close> resolves to nothing (neither name is a suffix of its segments), and with the
  two suffixes \<open>b:c\<close> and \<open>c\<close> registered the shorter one is returned.
\<close>

theorem resolveNamespace_longest_counterexample:
  "resolveNamespace [''a:b'', ''a''] ''a:b:c'' = Inr None
   \<and> resolveNamespace [''b:c'', ''c''] ''a:b:c'' = Inr (Some ''c'')"
  by (simp add: resolveNamespace_def Urn_guard_def Urn_valid_def Urn_parts_def)

text \<open>
  C8: for a valid identifier, the resolver returns normally with no match exactly when no
  suffix of the segment sequence, at any length, is one of the names.
\<close>

theorem resolveNamespace_no_match:
  assumes "Urn_valid uri"
  shows "(resolveNamespace names uri = Inr None) =
         (\<forall>i<length (Urn_parts uri). join '':'' (drop i (Urn_parts uri)) \<notin> set names)"
  using assms resolveNamespace_loop_None [of names "Urn_parts uri" "length (Urn_parts uri)"]
  by (simp add: resolveNamespace_def Urn_guard_def Let_def)

theorem resolveNamespace_no_match_witness:
  "resolveNamespace [''x:y''] ''a:b:c'' = Inr None"
proof -
  have "\<forall>i<length (Urn_parts ''a:b:c'').
          join '':'' (drop i (Urn_parts ''a:b:c'')) \<notin> set [''x:y'']"
  proof (intro allI impI)
    fix i :: nat
    assume "i < length (Urn_parts ''a:b:c'')"
    then have "i = 0 \<or> i = 1 \<or> i = 2" by (auto simp: Urn_parts_abc)
    then show "join '':'' (drop i (Urn_parts ''a:b:c'')) \<notin> set [''x:y'']"
      by (auto simp: Urn_parts_abc)
  qed
  with resolveNamespace_no_match [OF Urn_valid_abc, of "[''x:y'']"] show ?thesis by simp
qed

text \<open>
  C6: an identifier that fails the guard makes the resolver throw the guard's error,
  whatever the names are: the guard is the first statement and the names are not read
  before it. A string with no character other than the delimiter (the empty string
  among them) fails the guard.
\<close>

theorem resolveNamespace_malformed:
  assumes "\<not> Urn_valid uri \<or> set uri \<subseteq> {CHR '':''}"
  shows "resolveNamespace names uri = Inl MalformedIdentifier"
  using assms split_on_delimiters_only [of uri "CHR '':''"]
  by (auto simp: resolveNamespace_def Urn_guard_def Urn_valid_def Urn_parts_def)

theorem resolveNamespace_malformed_witness:
  "resolveNamespace [''a''] '''' = Inl MalformedIdentifier
   \<and> resolveNamespace [''a''] ''::'' = Inl MalformedIdentifier
   \<and> resolveNamespace [''a''] ''a::b'' = Inl MalformedIdentifier"
proof -
  have "\<not> Urn_valid ''a::b''" by (simp add: Urn_valid_def Urn_parts_def)
  then have "\<not> Urn_valid ''a::b'' \<or> set ''a::b'' \<subseteq> {CHR '':''}" by simp
  from resolveNamespace_malformed [OF this, of "[''a'']"]
    resolveNamespace_malformed [of "''''" "[''a'']"]
    resolveNamespace_malformed [of "''::''" "[''a'']"]
  show ?thesis by simp
qed

section \<open>Properties of validateIProperty\<close>

lemmas Validation_defs =
  Validation_object_def Validation_stringValue_def Validation_notEmpty_def Url_validate_def

text \<open>The failures a call appends do not depend on what the collection already holds,
  and neither does the outcome.\<close>

lemma validateIProperty_sink:
  "validateIProperty env p v fs c =
     (fst (validateIProperty env p v [] c), fs @ snd (validateIProperty env p v [] c))"
  by (auto simp: validateIProperty_def Validation_defs Let_def
           split: prod.splits option.splits sum.splits)

lemma validateIProperty_not_object:
  "\<not> Is_object v \<Longrightarrow>
   validateIProperty env p v fs c = (Inr False, fs @ [\<lparr>property = p, reason = ''validation.beObject''\<rparr>])"
  by (simp add: validateIProperty_def Validation_object_def)

text \<open>The example values and registries, member by member.\<close>

lemma exampleProperty_fields:
  "js_field (exampleProperty k t x) ''key'' = JStr k"
  "js_field (exampleProperty k t x) ''type'' = JStr t"
  "js_field (exampleProperty k t x) ''value'' = x"
  "Is_object (exampleProperty k t x)"
  by (simp_all add: js_field_def exampleProperty_def Is_object_def)

lemma example_Url_syntax:
  "Url_syntax emptyRegistry = exampleUrl" "Url_syntax exampleRegistry = exampleUrl"
  by (simp_all add: emptyRegistry_def exampleRegistry_def)

lemma example_get:
  "DataTypeHandlerFactory_get emptyRegistry t = None"
  "DataTypeHandlerFactory_get exampleRegistry (JStr ''https://example.org/AlwaysFails'')
     = Some \<lparr>htype = ''https://example.org/AlwaysFails'', validate = Some alwaysFails\<rparr>"
  by (simp_all add: DataTypeHandlerFactory_get_def emptyRegistry_def exampleRegistry_def
        split: jsval.splits)

lemma example_values:
  "Is_object (JObj members)" "\<not> Is_object (JNum n)"
  "js_field (JObj []) name = JUndefined" "js_field (JNum n) name = JUndefined"
  by (simp_all add: Is_object_def js_field_def)

lemmas example_simps =
  exampleProperty_fields example_values example_Url_syntax example_get Validation_defs
  Is_stringValue_def Is_empty_def nameof_def exampleUrl_def alwaysFails_def

text \<open>
  C2, as the code has it. The function returns \<^verbatim>\<open>is\<close>, the result of
  \<^verbatim>\<open>Validation.object\<close> alone. Provided the registered validator returns normally
  where one is called (the value is an object, its type passes the URL check and resolves
  to a handler with a validator), the boolean returned is whether the value is an object,
  and the failures appended are: for a value that is not an object, the failure of the
  object check; for an object, the failures of the key rule, of the type rule and of the
  value rule, in that order, followed by what the registered validator appends. Neither the
  three rules nor the registered validator enter the boolean.
\<close>

theorem validateIProperty_result:
  assumes "\<forall>h vf. Is_object v
             \<and> fst (Url_validate env (nameof ''type'' p) (js_field v ''type'') [])
             \<and> DataTypeHandlerFactory_get env (js_field v ''type'') = Some h
             \<and> validate h = Some vf
             \<longrightarrow> (\<exists>b. fst (vf p (js_field v ''value'') c) = Inr b)"
  shows "validateIProperty env p v fs c =
    (Inr (Is_object v),
     fs @ (if Is_object v
           then snd (Validation_stringValue (nameof ''key'' p) (js_field v ''key'') [])
              @ snd (Url_validate env (nameof ''type'' p) (js_field v ''type'') [])
              @ snd (Validation_notEmpty (nameof ''value'' p) (js_field v ''value'') [])
              @ (if fst (Url_validate env (nameof ''type'' p) (js_field v ''type'') [])
                 then (case DataTypeHandlerFactory_get env (js_field v ''type'') of
                         None \<Rightarrow> []
                       | Some h \<Rightarrow>
                           (case validate h of
                              None \<Rightarrow> []
                            | Some vf \<Rightarrow> snd (vf p (js_field v ''value'') c)))
                 else [])
           else snd (Validation_object p v [])))"
proof (cases "Is_object v")
  case False
  then show ?thesis by (simp add: validateIProperty_def Validation_object_def)
next
  case obj: True
  show ?thesis
  proof (cases "fst (Url_validate env (nameof ''type'' p) (js_field v ''type'') [])")
    case False
    with obj show ?thesis
      by (simp add: validateIProperty_def Validation_defs Let_def split: prod.splits if_splits)
  next
    case url: True
    show ?thesis
    proof (cases "DataTypeHandlerFactory_get env (js_field v ''type'')")
      case None
      with obj url show ?thesis
        by (simp add: validateIProperty_def Validation_defs Let_def split: prod.splits if_splits)
    next
      case (Some h)
      note get = this
      show ?thesis
      proof (cases "validate h")
        case None
        with obj url get show ?thesis
          by (simp add: validateIProperty_def Validation_defs Let_def split: prod.splits if_splits)
      next
        case (Some vf)
        with assms obj url get
        obtain b where "fst (vf p (js_field v ''value'') c) = Inr b" by blast
        then obtain out where "vf p (js_field v ''value'') c = (Inr b, out)"
          by (cases "vf p (js_field v ''value'') c") simp
        with obj url get Some show ?thesis
          by (simp add: validateIProperty_def Validation_defs Let_def split: prod.splits if_splits)
      qed
    qed
  qed
qed

text \<open>The empty object; a well-formed property whose validator reports a failure; a
  property with an empty key and a type that fails the URL check; a number.\<close>

theorem validateIProperty_result_witness:
  "validateIProperty emptyRegistry ''p'' (JObj []) [] JUndefined =
     (Inr True, [\<lparr>property = ''p.key'', reason = ''validation.beTextValue''\<rparr>,
                 \<lparr>property = ''p.type'', reason = ''validation.beUrl''\<rparr>,
                 \<lparr>property = ''p.value'', reason = ''validation.beNotEmpty''\<rparr>])
   \<and> validateIProperty exampleRegistry ''p''
        (exampleProperty ''k'' ''https://example.org/AlwaysFails'' (JNum 1)) [] JUndefined
       = (Inr True, [\<lparr>property = ''p'', reason = ''example.alwaysFails''\<rparr>])
   \<and> validateIProperty exampleRegistry ''p''
        (exampleProperty [] ''not a url'' (JArr [JNull])) [] JUndefined
       = (Inr True, [\<lparr>property = ''p.key'', reason = ''validation.beTextValue''\<rparr>,
                     \<lparr>property = ''p.type'', reason = ''validation.beUrl''\<rparr>])
   \<and> validateIProperty exampleRegistry ''p'' (JNum 1) [] JUndefined
       = (Inr False, [\<lparr>property = ''p'', reason = ''validation.beObject''\<rparr>])"
proof -
  let ?a = "JObj []"
  let ?b = "exampleProperty ''k'' ''https://example.org/AlwaysFails'' (JNum 1)"
  let ?c = "exampleProperty [] ''not a url'' (JArr [JNull])"
  let ?d = "JNum 1"
  have a: "\<forall>h vf. Is_object ?a
             \<and> fst (Url_validate emptyRegistry (nameof ''type'' ''p'') (js_field ?a ''type'') [])
             \<and> DataTypeHandlerFactory_get emptyRegistry (js_field ?a ''type'') = Some h
             \<and> validate h = Some vf
             \<longrightarrow> (\<exists>b. fst (vf ''p'' (js_field ?a ''value'') JUndefined) = Inr b)"
    by (simp add: example_simps)
  have b: "\<forall>h vf. Is_object ?b
             \<and> fst (Url_validate exampleRegistry (nameof ''type'' ''p'') (js_field ?b ''type'') [])
             \<and> DataTypeHandlerFactory_get exampleRegistry (js_field ?b ''type'') = Some h
             \<and> validate h = Some vf
             \<longrightarrow> (\<exists>b. fst (vf ''p'' (js_field ?b ''value'') JUndefined) = Inr b)"
    by (auto simp: exampleProperty_fields example_get alwaysFails_def)
  have c: "\<forall>h vf. Is_object ?c
             \<and> fst (Url_validate exampleRegistry (nameof ''type'' ''p'') (js_field ?c ''type'') [])
             \<and> DataTypeHandlerFactory_get exampleRegistry (js_field ?c ''type'') = Some h
             \<and> validate h = Some vf
             \<longrightarrow> (\<exists>b. fst (vf ''p'' (js_field ?c ''value'') JUndefined) = Inr b)"
    by (simp add: exampleProperty_fields example_Url_syntax Url_validate_def exampleUrl_def)
  have d: "\<forall>h vf. Is_object ?d
             \<and> fst (Url_validate exampleRegistry (nameof ''type'' ''p'') (js_field ?d ''type'') [])
             \<and> DataTypeHandlerFactory_get exampleRegistry (js_field ?d ''type'') = Some h
             \<and> validate h = Some vf
             \<longrightarrow> (\<exists>b. fst (vf ''p'' (js_field ?d ''value'') JUndefined) = Inr b)"
    by (simp add: example_values)
  from validateIProperty_result [OF a, of "[]"]
  have 1: "validateIProperty emptyRegistry ''p'' ?a [] JUndefined =
     (Inr True, [\<lparr>property = ''p.key'', reason = ''validation.beTextValue''\<rparr>,
                 \<lparr>property = ''p.type'', reason = ''validation.beUrl''\<rparr>,
                 \<lparr>property = ''p.value'', reason = ''validation.beNotEmpty''\<rparr>])"
    by (simp add: example_simps)
  from validateIProperty_result [OF b, of "[]"]
  have 2: "validateIProperty exampleRegistry ''p'' ?b [] JUndefined
       = (Inr True, [\<lparr>property = ''p'', reason = ''example.alwaysFails''\<rparr>])"
    by (simp add: example_simps)
  from validateIProperty_result [OF c, of "[]"]
  have 3: "validateIProperty exampleRegistry ''p'' ?c [] JUndefined
       = (Inr True, [\<lparr>property = ''p.key'', reason = ''validation.beTextValue''\<rparr>,
                     \<lparr>property = ''p.type'', reason = ''validation.beUrl''\<rparr>])"
    by (simp add: example_simps)
  from validateIProperty_result [OF d, of "[]"]
  have 4: "validateIProperty exampleRegistry ''p'' ?d [] JUndefined
       = (Inr False, [\<lparr>property = ''p'', reason = ''validation.beObject''\<rparr>])"
    by (simp add: example_simps)
  from 1 2 3 4 show ?thesis by simp
qed

text \<open>
  C2, as the specification states it, fails: the empty object has no key, no type and no
  value, the three rules each append their failure, and the function returns true.
\<close>

theorem validateIProperty_structural_counterexample:
  "validateIProperty emptyRegistry ''p'' (JObj []) [] JUndefined =
     (Inr True, [\<lparr>property = ''p.key'', reason = ''validation.beTextValue''\<rparr>,
                 \<lparr>property = ''p.type'', reason = ''validation.beUrl''\<rparr>,
                 \<lparr>property = ''p.value'', reason = ''validation.beNotEmpty''\<rparr>])
   \<and> \<not> Is_stringValue (js_field (JObj []) ''key'')"
  by code_simp

text \<open>
  C5: a well-formed property (an object with a non-empty string key, a type that passes
  the URL check and a value that is neither \<^verbatim>\<open>undefined\<close> nor \<^verbatim>\<open>null\<close>) whose type
  has no handler in the registry, or a handler with no validator, is accepted with
  nothing appended, whatever its value is.
\<close>

theorem validateIProperty_unregistered_type:
  assumes "Is_object v"
    and "Is_stringValue (js_field v ''key'')"
    and "js_field v ''type'' = JStr t" and "t \<noteq> []" and "Url_syntax env t"
    and "\<not> Is_empty (js_field v ''value'')"
    and "DataTypeHandlerFactory env t = None \<or>
         (\<exists>h. DataTypeHandlerFactory env t = Some h \<and> validate h = None)"
  shows "validateIProperty env p v fs c = (Inr True, fs)"
  using assms
  by (auto simp: validateIProperty_def Validation_defs DataTypeHandlerFactory_get_def Let_def)

text \<open>An unregistered type with the value \<^verbatim>\<open>[null]\<close>, and a type whose handler has a
  schema only.\<close>

theorem validateIProperty_unregistered_type_witness:
  "validateIProperty emptyRegistry ''p''
     (exampleProperty ''k'' ''https://example.org/Unknown'' (JArr [JNull])) [] JUndefined
     = (Inr True, [])
   \<and> validateIProperty exampleRegistry ''p''
     (exampleProperty ''k'' ''https://example.org/SchemaOnly'' (JNum 7)) [] JUndefined
     = (Inr True, [])"
proof -
  let ?u = "exampleProperty ''k'' ''https://example.org/Unknown'' (JArr [JNull])"
  let ?s = "exampleProperty ''k'' ''https://example.org/SchemaOnly'' (JNum 7)"
  have u: "Is_object ?u" "Is_stringValue (js_field ?u ''key'')"
    "js_field ?u ''type'' = JStr ''https://example.org/Unknown''"
    "''https://example.org/Unknown'' \<noteq> []"
    "Url_syntax emptyRegistry ''https://example.org/Unknown''"
    "\<not> Is_empty (js_field ?u ''value'')"
    "DataTypeHandlerFactory emptyRegistry ''https://example.org/Unknown'' = None \<or>
     (\<exists>h. DataTypeHandlerFactory emptyRegistry ''https://example.org/Unknown'' = Some h
          \<and> validate h = None)"
    by (simp_all add: exampleProperty_def Is_object_def Is_stringValue_def js_field_def
          Is_empty_def emptyRegistry_def exampleUrl_def)
  have s: "Is_object ?s" "Is_stringValue (js_field ?s ''key'')"
    "js_field ?s ''type'' = JStr ''https://example.org/SchemaOnly''"
    "''https://example.org/SchemaOnly'' \<noteq> []"
    "Url_syntax exampleRegistry ''https://example.org/SchemaOnly''"
    "\<not> Is_empty (js_field ?s ''value'')"
    "DataTypeHandlerFactory exampleRegistry ''https://example.org/SchemaOnly'' = None \<or>
     (\<exists>h. DataTypeHandlerFactory exampleRegistry ''https://example.org/SchemaOnly'' = Some h
          \<and> validate h = None)"
    by (simp_all add: exampleProperty_def Is_object_def Is_stringValue_def js_field_def
          Is_empty_def exampleRegistry_def exampleUrl_def)
  from validateIProperty_unregistered_type [OF u, of "''p''" "[]" JUndefined]
    validateIProperty_unregistered_type [OF s, of "''p''" "[]" JUndefined]
  show ?thesis by simp
qed

section \<open>Properties of validateIPropertyList\<close>

text \<open>
  C7: on \<^verbatim>\<open>undefined\<close>, \<^verbatim>\<open>null\<close> and the empty array the function returns true and
  leaves the failures as they were.
\<close>

theorem validateIPropertyList_vacuous:
  assumes "Is_empty v \<or> v = JArr []"
  shows "validateIPropertyList env p v fs c = (Inr True, fs)"
  using assms by (auto simp: validateIPropertyList_def Is_array_def elements_def)

theorem validateIPropertyList_vacuous_witness:
  "validateIPropertyList exampleRegistry ''p'' JUndefined [] JUndefined = (Inr True, [])
   \<and> validateIPropertyList exampleRegistry ''p'' JNull [] JUndefined = (Inr True, [])
   \<and> validateIPropertyList exampleRegistry ''p'' (JArr []) [] JUndefined = (Inr True, [])"
  using validateIPropertyList_vacuous [of JUndefined exampleRegistry "''p''" "[]" JUndefined]
    validateIPropertyList_vacuous [of JNull exampleRegistry "''p''" "[]" JUndefined]
    validateIPropertyList_vacuous [of "JArr []" exampleRegistry "''p''" "[]" JUndefined]
  by (simp add: Is_empty_def)

text \<open>
  C10: on a value that is neither \<^verbatim>\<open>undefined\<close>, \<^verbatim>\<open>null\<close> nor an array the function
  returns false and leaves the failures as they were.
\<close>

theorem validateIPropertyList_wrong_kind:
  assumes "\<not> Is_empty v" and "\<not> Is_array v"
  shows "validateIPropertyList env p v fs c = (Inr False, fs)"
  using assms by (simp add: validateIPropertyList_def)

theorem validateIPropertyList_wrong_kind_witness:
  "validateIPropertyList exampleRegistry ''p'' (JNum 5) [] JUndefined = (Inr False, [])
   \<and> validateIPropertyList exampleRegistry ''p'' (JStr ''abc'') [] JUndefined = (Inr False, [])
   \<and> validateIPropertyList exampleRegistry ''p'' (JObj [(''key'', JStr ''k'')]) [] JUndefined
       = (Inr False, [])"
  using validateIPropertyList_wrong_kind [of "JNum 5" exampleRegistry "''p''" "[]" JUndefined]
    validateIPropertyList_wrong_kind [of "JStr ''abc''" exampleRegistry "''p''" "[]" JUndefined]
    validateIPropertyList_wrong_kind [of "JObj [(''key'', JStr ''k'')]" exampleRegistry "''p''" "[]" JUndefined]
  by (simp add: Is_empty_def Is_array_def)

text \<open>An array whose first element is \<^verbatim>\<open>null\<close>: the loop reads \<^verbatim>\<open>value[0].key\<close>
  before the element reaches the object check of \<^verbatim>\<open>validateIProperty\<close>.\<close>

lemma validateIPropertyList_null_element:
  "validateIPropertyList env p (JArr (JNull # xs)) fs c = (Inl TypeError, fs)"
  by (simp add: validateIPropertyList_def Is_empty_def Is_array_def elements_def js_get_def)

text \<open>
  C3 does not hold of the code: on the array \<^verbatim>\<open>[null]\<close> the list validator throws a
  TypeError and appends nothing, and so does \<^verbatim>\<open>validateIProperty\<close> on a property of
  type \<^verbatim>\<open>TYPE_PROPERTY_LIST\<close> with that value, through the registered validator.
\<close>

theorem validateIPropertyList_null_element_throws:
  "validateIPropertyList emptyRegistry ''p'' (JArr [JNull]) [] JUndefined = (Inl TypeError, [])
   \<and> validateIProperty exampleRegistry ''p''
        (exampleProperty ''k'' TYPE_PROPERTY_LIST (JArr [JNull])) [] JUndefined
       = (Inl TypeError, [])"
  by code_simp

text \<open>The loop only appends to the failures.\<close>

lemma validateIPropertyList_loop_extends:
  "\<exists>out. snd (validateIPropertyList_loop env p c xs i keys fs) = fs @ out"
proof (induction xs arbitrary: i keys fs)
  case Nil
  show ?case by simp
next
  case (Cons x xs)
  show ?case
  proof (cases "js_get x ''key''")
    case (Inl e)
    then show ?thesis by simp
  next
    case (Inr k)
    define f1 where "f1 = (if Array_includes keys k then fs @ [keyAlreadyExists p i] else fs)"
    obtain a where a: "f1 = fs @ a"
      by (cases "Array_includes keys k") (auto simp: f1_def)
    obtain r f2 where r: "validateIProperty env (elementName p i) x f1 c = (r, f2)"
      by (cases "validateIProperty env (elementName p i) x f1 c")
    with validateIProperty_sink [of env "elementName p i" x f1 c]
    obtain b where b: "f2 = f1 @ b" by auto
    show ?thesis
    proof (cases r)
      case (Inl e)
      with Inr r a b show ?thesis by (simp add: f1_def [symmetric] Let_def)
    next
      case (Inr u)
      from Cons.IH [of "Suc i" "keys @ [k]" f2]
      obtain d where "snd (validateIPropertyList_loop env p c xs (Suc i) (keys @ [k]) f2) = f2 @ d"
        by blast
      with Inr r a b \<open>js_get x ''key'' = Inr k\<close> show ?thesis
        by (simp add: f1_def [symmetric] Let_def)
    qed
  qed
qed

text \<open>Running the loop over \<open>xs @ ys\<close> is running it over \<open>xs\<close> and then, unless that
  threw, over \<open>ys\<close> from the index, the keys and the failures it has reached.\<close>

lemma validateIPropertyList_loop_append:
  "validateIPropertyList_loop env p c (xs @ ys) i keys fs =
     (case validateIPropertyList_loop env p c xs i keys fs of
        (Inl e, f) \<Rightarrow> (Inl e, f)
      | (Inr u, f) \<Rightarrow>
          validateIPropertyList_loop env p c ys (i + length xs)
            (keys @ map (\<lambda>x. js_field x ''key'') xs) f)"
proof (induction xs arbitrary: i keys fs)
  case Nil
  show ?case by simp
next
  case (Cons x xs)
  show ?case
  proof (cases "Is_empty x")
    case True
    then show ?thesis by (simp add: js_get_def)
  next
    case False
    then show ?thesis
      by (simp add: js_get_def Let_def Cons.IH split: prod.splits sum.splits)
  qed
qed


text \<open>For a string key, \<^verbatim>\<open>keys.includes\<close> is membership among the keys seen.\<close>

lemma sameValueZero_string: "sameValueZero x (JStr s) = (x = JStr s)"
  by (cases x) auto

lemma Array_includes_string: "Array_includes keys (JStr s) = (JStr s \<in> set keys)"
  by (induction keys) (auto simp: Array_includes_def sameValueZero_string)








text \<open>
  What the iteration for the last element does with the failures left by the iterations
  before it: it appends the element's \<^verbatim>\<open>keyAlreadyExists\<close> failure, if any, and hands
  the collection to \<^verbatim>\<open>validateIProperty\<close>, which appends the element's structural
  failures and then those of its registered validator.
\<close>

lemma validateIPropertyList_snoc:
  "validateIPropertyList env p (JArr (xs @ [y])) fs c =
     (case validateIPropertyList env p (JArr xs) fs c of
        (Inl e, f) \<Rightarrow> (Inl e, f)
      | (Inr r, f) \<Rightarrow>
          (case js_get y ''key'' of
             Inl e \<Rightarrow> (Inl e, f)
           | Inr k \<Rightarrow>
               (case validateIProperty env (elementName p (length xs)) y
                       (if Array_includes (map (\<lambda>x. js_field x ''key'') xs) k
                        then f @ [keyAlreadyExists p (length xs)] else f) c of
                  (Inl e, f') \<Rightarrow> (Inl e, f')
                | (Inr r', f') \<Rightarrow> (Inr True, f'))))"
  by (simp add: validateIPropertyList_def Is_empty_def Is_array_def elements_def
        validateIPropertyList_loop_append Let_def
      split: prod.splits sum.splits)

text \<open>The failures the loop appends, element by element, whether or not it throws.\<close>

lemma validateIPropertyList_loop_order:
  "snd (validateIPropertyList_loop env p c ys i0 keys fs) =
     fs @ concat (map (\<lambda>j.
        if Is_empty (ys ! j) then []
        else (if Array_includes (keys @ map (\<lambda>x. js_field x ''key'') (take j ys)) (js_field (ys ! j) ''key'')
              then [keyAlreadyExists p (i0 + j)] else [])
             @ snd (validateIProperty env (elementName p (i0 + j)) (ys ! j) [] c))
       (take (Suc (length (takeWhile (\<lambda>j. \<not> Is_empty (ys ! j) \<and>
            (case fst (validateIProperty env (elementName p (i0 + j)) (ys ! j) [] c) of
               Inl e \<Rightarrow> False | Inr b \<Rightarrow> True)) [0..<length ys])))
          [0..<length ys]))"
proof (induction ys arbitrary: i0 keys fs)
  case Nil
  show ?case by simp
next
  case (Cons x ys)
  have upt: "[0..<length (x # ys)] = 0 # map Suc [0..<length ys]"
    by (simp add: map_Suc_upt upt_conv_Cons del: upt_Suc)
  show ?case
  proof (cases "Is_empty x")
    case True
    then show ?thesis unfolding upt by (simp add: js_get_def)
  next
    case ne: False
    define out where "out = snd (validateIProperty env (elementName p i0) x [] c)"
    define r where "r = fst (validateIProperty env (elementName p i0) x [] c)"
    have step: "validateIProperty env (elementName p i0) x f c = (r, f @ out)" for f
      using validateIProperty_sink [of env "elementName p i0" x f c] by (simp add: out_def r_def)
    have r0: "fst (validateIProperty env (elementName p i0) x [] c) = r" by (simp add: r_def)
    have o0: "snd (validateIProperty env (elementName p i0) x [] c) = out" by (simp add: out_def)
    show ?thesis
    proof (cases r)
      case (Inl e)
      with ne show ?thesis unfolding upt
        by (simp add: js_get_def step r0 o0 Let_def)
    next
      case (Inr b)
      with ne show ?thesis unfolding upt
        by (simp add: js_get_def step r0 o0 Let_def Cons.IH takeWhile_map take_map comp_def
              del: upt_Suc cong: if_cong)
    qed
  qed
qed

text \<open>
  C9: the failures are appended in traversal order. After the failures it was given, the
  collection holds the failures of element \<open>0\<close>, then those of element \<open>1\<close>, and so
  on through the elements whose iteration runs; the failures of element \<open>i\<close> are its
  \<^verbatim>\<open>keyAlreadyExists\<close> failure, if any, followed by the failures of
  \<^verbatim>\<open>validateIProperty\<close> on it (its structural failures and then those of its
  registered validator). So every failure of element \<open>i\<close> stands before every failure of
  element \<open>i + 1\<close>. No condition is put on the elements or on the registry.
\<close>

theorem validateIPropertyList_traversal_order:
  "snd (validateIPropertyList env p (JArr xs) fs c) =
     fs @ concat (map (elementFailures env p c xs) (reachedElements env p c xs))"
proof -
  have run: "snd (validateIPropertyList env p (JArr xs) fs c) =
             snd (validateIPropertyList_loop env p c xs 0 [] fs)"
    by (simp add: validateIPropertyList_def Is_empty_def Is_array_def elements_def
          split: prod.splits sum.splits)
  have blocks: "elementFailures env p c xs = (\<lambda>j.
        if Is_empty (xs ! j) then []
        else (if Array_includes ([] @ map (\<lambda>x. js_field x ''key'') (take j xs)) (js_field (xs ! j) ''key'')
              then [keyAlreadyExists p (0 + j)] else [])
             @ snd (validateIProperty env (elementName p (0 + j)) (xs ! j) [] c))"
    by (rule ext) (simp add: elementFailures_def duplicateKeyFailures_def)
  have returns: "elementReturns env p c xs = (\<lambda>j. \<not> Is_empty (xs ! j) \<and>
            (case fst (validateIProperty env (elementName p (0 + j)) (xs ! j) [] c) of
               Inl e \<Rightarrow> False | Inr b \<Rightarrow> True))"
    by (rule ext) (simp add: elementReturns_def)
  show ?thesis
    unfolding run reachedElements_def blocks returns
    by (rule validateIPropertyList_loop_order)
qed

lemma example_run_sink:
  "[] @ concat (map (elementFailures exampleRegistry ''p'' JUndefined
        [exampleProperty ''k'' ''https://example.org/AlwaysFails'' (JNum 1),
         exampleProperty ''k'' ''https://example.org/AlwaysFails'' (JNum 2),
         JNull,
         exampleProperty ''j'' ''https://example.org/AlwaysFails'' (JNum 3)])
      (reachedElements exampleRegistry ''p'' JUndefined
        [exampleProperty ''k'' ''https://example.org/AlwaysFails'' (JNum 1),
         exampleProperty ''k'' ''https://example.org/AlwaysFails'' (JNum 2),
         JNull,
         exampleProperty ''j'' ''https://example.org/AlwaysFails'' (JNum 3)]))
   = [\<lparr>property = ''p[0]'', reason = ''example.alwaysFails''\<rparr>,
      \<lparr>property = ''p[1].key'', reason = ''validation.properties.keyAlreadyExists''\<rparr>,
      \<lparr>property = ''p[1]'', reason = ''example.alwaysFails''\<rparr>]"
  by code_simp

text \<open>Four elements, the second with the key of the first and the third \<^verbatim>\<open>null\<close>:
  the failures of the first, then those of the second; the iteration for the third throws
  and the fourth is not reached.\<close>

theorem validateIPropertyList_traversal_order_witness:
  "snd (validateIPropertyList exampleRegistry ''p''
     (JArr [exampleProperty ''k'' ''https://example.org/AlwaysFails'' (JNum 1),
            exampleProperty ''k'' ''https://example.org/AlwaysFails'' (JNum 2),
            JNull,
            exampleProperty ''j'' ''https://example.org/AlwaysFails'' (JNum 3)]) [] JUndefined)
   = [\<lparr>property = ''p[0]'', reason = ''example.alwaysFails''\<rparr>,
      \<lparr>property = ''p[1].key'', reason = ''validation.properties.keyAlreadyExists''\<rparr>,
      \<lparr>property = ''p[1]'', reason = ''example.alwaysFails''\<rparr>]"
  using validateIPropertyList_traversal_order [of exampleRegistry "''p''"
     "[exampleProperty ''k'' ''https://example.org/AlwaysFails'' (JNum 1),
       exampleProperty ''k'' ''https://example.org/AlwaysFails'' (JNum 2),
       JNull,
       exampleProperty ''j'' ''https://example.org/AlwaysFails'' (JNum 3)]" "[]" JUndefined]
  by (simp only: example_run_sink)

end
